theory Spec2Isabelle
  imports Complex_Main
begin

text \<open>
  The administrative backend of a shop: Express handlers that run SQL statements on
  PostgreSQL. Three of them change the stock of a product and append to its history:
  \<^verbatim>\<open>POST /api/products\<close> (initial stock), \<^verbatim>\<open>POST /api/sales\<close> (a sale takes stock away, never
  below 0) and \<^verbatim>\<open>PUT /api/inventory/:product_id\<close> (the stock is set by hand). Each handler
  is a function from the request and the store to the answer and the store after it; each
  \<^verbatim>\<open>await db.query(...)\<close> is one statement on the store, which may fail.
\<close>

section \<open>Request values\<close>

text \<open>
  A field of a parsed JSON body (\<^verbatim>\<open>req.body.x\<close>) is \<^verbatim>\<open>undefined\<close> when absent, or
  \<^verbatim>\<open>null\<close>, a boolean, a number or a string. The numbers are the integers of magnitude
  below \<open>2 ^ 53\<close>, which a JavaScript number holds exactly and prints as plain decimal
  digits; fractional input is covered in its string form. Arrays and objects are not
  modelled. Strings are ASCII.
\<close>

datatype jsval = JUndefined | JNull | JBool bool | JNum int | JStr string

text \<open>\<^verbatim>\<open>!x\<close>\<close>

fun falsy :: "jsval \<Rightarrow> bool" where
  "falsy JUndefined = True"
| "falsy JNull = True"
| "falsy (JBool b) = (b = False)"
| "falsy (JNum n) = (n = 0)"
| "falsy (JStr s) = (s = [])"

text \<open>\<^verbatim>\<open>x == null\<close>\<close>

fun nullish :: "jsval \<Rightarrow> bool" where
  "nullish JUndefined = True"
| "nullish JNull = True"
| "nullish (JBool b) = False"
| "nullish (JNum n) = False"
| "nullish (JStr s) = False"

fun typeof :: "jsval \<Rightarrow> string" where
  "typeof JUndefined = ''undefined''"
| "typeof JNull = ''object''"
| "typeof (JBool b) = ''boolean''"
| "typeof (JNum n) = ''number''"
| "typeof (JStr s) = ''string''"

definition white_space :: "char \<Rightarrow> bool" where
  "white_space c = (c \<in> set [CHR 0x09, CHR 0x0A, CHR 0x0B, CHR 0x0C, CHR 0x0D, CHR '' ''])"

definition digit :: "char \<Rightarrow> bool" where
  "digit c = (c \<in> set ''0123456789'')"

definition digit_value :: "char \<Rightarrow> int" where
  "digit_value c = int (of_char c) - 48"

definition decimal :: "string \<Rightarrow> int" where
  "decimal ds = foldl (\<lambda>a c. 10 * a + digit_value c) 0 ds"

definition signum :: "string \<Rightarrow> int" where
  "signum s = (case s of [] \<Rightarrow> 1 | c # cs \<Rightarrow> if c = CHR ''-'' then - 1 else 1)"

definition unsigned :: "string \<Rightarrow> string" where
  "unsigned s = (case s of [] \<Rightarrow> [] | c # cs \<Rightarrow> if c = CHR ''-'' \<or> c = CHR ''+'' then cs else s)"

text \<open>
  \<^verbatim>\<open>parseInt(string, 10)\<close> of ECMAScript: leading white space is skipped, a sign is read,
  then the longest run of decimal digits; whatever follows is ignored. No digit gives
  \<^verbatim>\<open>NaN\<close>, here \<open>None\<close>. The result is exact (a JavaScript number rounds beyond
  \<open>2 ^ 53\<close>).
\<close>

definition parseInt_string :: "string \<Rightarrow> int option" where
  "parseInt_string s =
     (let t = dropWhile white_space s;
          z = takeWhile digit (unsigned t)
      in if z = [] then None else Some (signum t * decimal z))"

text \<open>
  \<^verbatim>\<open>parseInt(x, 10)\<close> first converts \<open>x\<close> to a string: an integral number to its decimal
  digits, which read back as the number; \<^verbatim>\<open>"undefined"\<close>, \<^verbatim>\<open>"null"\<close>, \<^verbatim>\<open>"true"\<close> and
  \<^verbatim>\<open>"false"\<close> hold no digit.
\<close>

fun parseInt :: "jsval \<Rightarrow> int option" where
  "parseInt (JStr s) = parseInt_string s"
| "parseInt (JNum n) = Some n"
| "parseInt (JBool b) = None"
| "parseInt JNull = None"
| "parseInt JUndefined = None"

definition isNaN :: "'a option \<Rightarrow> bool" where
  "isNaN x = (x = None)"

text \<open>\<^verbatim>\<open>x < n\<close> and \<^verbatim>\<open>x <= n\<close> on numbers: false when \<open>x\<close> is \<^verbatim>\<open>NaN\<close>.\<close>

definition js_less :: "'a::ord option \<Rightarrow> 'a \<Rightarrow> bool" where
  "js_less x n = (case x of None \<Rightarrow> False | Some m \<Rightarrow> m < n)"

definition js_less_eq :: "int option \<Rightarrow> int \<Rightarrow> bool" where
  "js_less_eq x n = (case x of None \<Rightarrow> False | Some m \<Rightarrow> m \<le> n)"

text \<open>\<^verbatim>\<open>String.prototype.trim\<close>\<close>

definition trim :: "string \<Rightarrow> string" where
  "trim s = rev (dropWhile white_space (rev (dropWhile white_space s)))"

section \<open>The store\<close>

text \<open>
  The five relations of \<^verbatim>\<open>schema.sql\<close>, each a list of rows in insertion order. Columns that
  nothing below reads are left out: the timestamps, the category names and the serial ids
  of \<^verbatim>\<open>inventory\<close> and \<^verbatim>\<open>inventory_history\<close> (their order is the list order, which is also
  the order of \<^verbatim>\<open>changed_at\<close>). A serial id is drawn from the sequence of its table. The
  \<^verbatim>\<open>price\<close> column of \<^verbatim>\<open>products\<close>, a \<^verbatim>\<open>NUMERIC(12,2)\<close>, is kept beside the rows, in cents
  and by product id. The \<^verbatim>\<open>total_price\<close> of a sale is checked against its column and not
  kept.
\<close>

record product =
  p_id :: int
  p_name :: string
  p_description :: string
  p_category_id :: "int option"

record inventory_row =
  i_product_id :: int
  i_quantity :: int

record history_entry =
  h_product_id :: int
  change_qty :: int
  previous_qty :: int
  new_qty :: int

record sale =
  s_id :: int
  s_product_id :: int
  s_quantity :: int

record db =
  categories :: "int list"
  products :: "product list"
  products_id_seq :: int
  inventory :: "inventory_row list"
  inventory_history :: "history_entry list"
  sales :: "sale list"
  sales_id_seq :: int
  product_prices :: "(int \<times> int) list"
  integer_forms :: "string \<Rightarrow> int option"

text \<open>
  The last field belongs to the server and not to the data: what it reads as an
  \<^verbatim>\<open>integer\<close> in a text that is no plain decimal integer. PostgreSQL before version 16
  reads none; from version 16 on it reads other bases and digit separators as well.
  Nothing below fixes it, except in the example stores.
\<close>

datatype pg_error =
  unique_violation
| foreign_key_violation
| check_violation
| invalid_text_representation
| numeric_value_out_of_range
| store_failure

type_synonym 'a result = "(pg_error + 'a) \<times> db"

text \<open>
  \<^verbatim>\<open>db.query\<close> of \<^verbatim>\<open>db.js\<close> is \<^verbatim>\<open>pool.query\<close>: one statement, committed on its own, on any
  connection of the pool. There is no transaction around two statements. The flag says that
  the store rejects this call for a reason that is not decided here: no connection, a
  \<^verbatim>\<open>sale_date\<close> before the first day the store can hold and, in \<^verbatim>\<open>POST /api/products\<close> and
  \<^verbatim>\<open>PUT /api/inventory/:product_id\<close>, a name, a price or a number beyond its column. The
  statement then has no effect and the promise is rejected. What the store makes of the
  \<^verbatim>\<open>product_id\<close>, the \<^verbatim>\<open>quantity\<close> and the total price of a sale is decided below.
\<close>

definition query :: "bool \<Rightarrow> (db \<Rightarrow> 'a result) \<Rightarrow> db \<Rightarrow> 'a result" where
  "query rejected statement d = (if rejected then (Inl store_failure, d) else statement d)"

text \<open>
  A plain decimal integer as every version of PostgreSQL reads it: white space, a sign,
  decimal digits, white space, and nothing else.
\<close>

definition decimal_integer :: "string \<Rightarrow> int option" where
  "decimal_integer s =
     (let t = dropWhile white_space s;
          z = takeWhile digit (unsigned t);
          rest = dropWhile white_space (dropWhile digit (unsigned t))
      in if z = [] \<or> rest \<noteq> [] then None else Some (signum t * decimal z))"

text \<open>The range of an \<^verbatim>\<open>INTEGER\<close> column.\<close>

definition int4 :: "int \<Rightarrow> bool" where
  "int4 n = (- 2147483648 \<le> n \<and> n \<le> 2147483647)"

text \<open>
  The server's input conversion for \<^verbatim>\<open>integer\<close>: a plain decimal integer is read as it is,
  any other text as this server reads it (\<open>forms\<close> is the \<open>integer_forms\<close> of the store), and
  an integer out of range is refused.
\<close>

definition int4in :: "(string \<Rightarrow> int option) \<Rightarrow> string \<Rightarrow> int option" where
  "int4in forms s =
     (case (case decimal_integer s of Some n \<Rightarrow> Some n | None \<Rightarrow> forms s) of
        Some n \<Rightarrow> if int4 n then Some n else None
      | None \<Rightarrow> None)"

text \<open>
  A body value as a statement parameter in an \<^verbatim>\<open>integer\<close> position. The driver sends a
  number as its decimal digits and a string as it is; \<^verbatim>\<open>true\<close> and \<^verbatim>\<open>false\<close> are no integers.
  \<^verbatim>\<open>null\<close> and \<^verbatim>\<open>undefined\<close> never reach a statement: every handler refuses them first.
\<close>

fun pg_integer :: "(string \<Rightarrow> int option) \<Rightarrow> jsval \<Rightarrow> int option" where
  "pg_integer forms (JNum n) = (if int4 n then Some n else None)"
| "pg_integer forms (JStr s) = int4in forms s"
| "pg_integer forms (JBool b) = None"
| "pg_integer forms JNull = None"
| "pg_integer forms JUndefined = None"

text \<open>
  A statement with such a parameter. When the server reads no integer in it, the statement
  is refused before it runs.
\<close>

definition with_integer :: "jsval \<Rightarrow> (int \<Rightarrow> db \<Rightarrow> 'a result) \<Rightarrow> db \<Rightarrow> 'a result" where
  "with_integer v statement d =
     (case pg_integer (integer_forms d) v of
        None \<Rightarrow> (Inl invalid_text_representation, d)
      | Some n \<Rightarrow> statement n d)"

text \<open>The price of a product, in cents.\<close>

definition price_of :: "db \<Rightarrow> int \<Rightarrow> int" where
  "price_of d pid = (case map_of (product_prices d) pid of None \<Rightarrow> 0 | Some c \<Rightarrow> c)"

text \<open>
  A price that \<^verbatim>\<open>POST /api/products\<close> sends as a number, as the column keeps it: rounded to
  two decimals. The price is not negative when it is sent, and the real number stands for
  the decimal digits the number is printed with.
\<close>

definition cents :: "real \<Rightarrow> int" where
  "cents r = \<lfloor>100 * r + 1 / 2\<rfloor>"

text \<open>
  \<^verbatim>\<open>INSERT INTO products(name, description, price, category_id) VALUES($1, $2, $3, $4)
  RETURNING id, ...\<close>. The id is the next value of the sequence, which stays drawn when the
  row is refused.
\<close>

definition insert_product :: "string \<Rightarrow> string \<Rightarrow> int \<Rightarrow> int \<Rightarrow> db \<Rightarrow> product result" where
  "insert_product nm descr pr cat d =
     (let row = \<lparr>p_id = products_id_seq d, p_name = nm, p_description = descr,
                  p_category_id = Some cat\<rparr>;
          d1 = d\<lparr>products_id_seq := products_id_seq d + 1\<rparr>
      in if p_id row \<in> set (map p_id (products d)) then (Inl unique_violation, d1)
         else if cat \<in> set (categories d)
         then (Inr row, d1\<lparr>products := products d @ [row],
                          product_prices := product_prices d @ [(p_id row, pr)]\<rparr>)
         else (Inl foreign_key_violation, d1))"

text \<open>\<^verbatim>\<open>INSERT INTO inventory(product_id, quantity, updated_at) VALUES($1, $2, NOW())\<close>\<close>

definition insert_inventory :: "int \<Rightarrow> int \<Rightarrow> db \<Rightarrow> unit result" where
  "insert_inventory pid qty d =
     (if qty < 0 then (Inl check_violation, d)
      else if pid \<in> set (map p_id (products d))
      then (Inr (), d\<lparr>inventory := inventory d @ [\<lparr>i_product_id = pid, i_quantity = qty\<rparr>]\<rparr>)
      else (Inl foreign_key_violation, d))"

text \<open>
  \<^verbatim>\<open>INSERT INTO inventory_history(product_id, change_qty, previous_qty, new_qty)
  VALUES($1, $2, $3, $4)\<close>
\<close>

definition insert_inventory_history :: "int \<Rightarrow> int \<Rightarrow> int \<Rightarrow> int \<Rightarrow> db \<Rightarrow> unit result" where
  "insert_inventory_history pid change previous new d =
     (if pid \<in> set (map p_id (products d))
      then (Inr (), d\<lparr>inventory_history := inventory_history d @
              [\<lparr>h_product_id = pid, change_qty = change, previous_qty = previous, new_qty = new\<rparr>]\<rparr>)
      else (Inl foreign_key_violation, d))"

text \<open>
  \<^verbatim>\<open>SELECT quantity FROM inventory WHERE product_id = $1 FOR UPDATE\<close>. The row lock ends
  with the statement, which is its whole transaction.
\<close>

definition select_inventory :: "int \<Rightarrow> db \<Rightarrow> int list result" where
  "select_inventory pid d =
     (Inr (map i_quantity (filter (\<lambda>r. i_product_id r = pid) (inventory d))), d)"

text \<open>\<^verbatim>\<open>UPDATE inventory SET quantity = $1, updated_at = NOW() WHERE product_id = $2\<close>\<close>

definition update_inventory :: "int \<Rightarrow> int \<Rightarrow> db \<Rightarrow> unit result" where
  "update_inventory qty pid d =
     (if qty < 0 \<and> pid \<in> set (map i_product_id (inventory d)) then (Inl check_violation, d)
      else (Inr (), d\<lparr>inventory :=
              map (\<lambda>r. if i_product_id r = pid then r\<lparr>i_quantity := qty\<rparr> else r) (inventory d)\<rparr>))"

text \<open>
  \<^verbatim>\<open>SELECT id FROM products WHERE id = $1\<close>, of which the handler reads only whether a row
  came back, and \<^verbatim>\<open>SELECT price FROM products WHERE id = $1\<close>.
\<close>

definition select_product :: "int \<Rightarrow> db \<Rightarrow> product list result" where
  "select_product pid d = (Inr (filter (\<lambda>p. p_id p = pid) (products d)), d)"

definition select_price :: "int \<Rightarrow> db \<Rightarrow> int list result" where
  "select_price pid d =
     (Inr (map (\<lambda>p. price_of d (p_id p)) (filter (\<lambda>p. p_id p = pid) (products d))), d)"

text \<open>
  \<^verbatim>\<open>SELECT p.id, ..., i.quantity FROM products p LEFT JOIN categories c ... LEFT JOIN
  inventory i ON p.id = i.product_id WHERE p.id = $1\<close>
\<close>

definition select_product_quantity :: "int \<Rightarrow> db \<Rightarrow> (product \<times> int option) list result" where
  "select_product_quantity pid d =
     (Inr (concat (map
        (\<lambda>p. case filter (\<lambda>r. i_product_id r = p_id p) (inventory d) of
                [] \<Rightarrow> [(p, None)]
              | r # rs \<Rightarrow> map (\<lambda>r. (p, Some (i_quantity r))) (r # rs))
        (filter (\<lambda>p. p_id p = pid) (products d)))), d)"

text \<open>
  \<^verbatim>\<open>INSERT INTO sales(product_id, quantity, total_price, sale_date) VALUES($1, $2, $3, $4)
  RETURNING id\<close>. The id is the next value of the sequence, which ends where \<^verbatim>\<open>INTEGER\<close>
  ends. The total price, in cents, must fit \<^verbatim>\<open>NUMERIC(14,2)\<close>, twelve digits before the
  point, and must not be negative.
\<close>

definition insert_sale :: "int \<Rightarrow> int \<Rightarrow> int \<Rightarrow> db \<Rightarrow> int result" where
  "insert_sale pid qty amount d =
     (let row = \<lparr>s_id = sales_id_seq d, s_product_id = pid, s_quantity = qty\<rparr>;
          d1 = d\<lparr>sales_id_seq := sales_id_seq d + 1\<rparr>
      in if \<not> int4 (sales_id_seq d) then (Inl numeric_value_out_of_range, d)
         else if 100000000000000 \<le> amount then (Inl numeric_value_out_of_range, d1)
         else if qty \<le> 0 \<or> amount < 0 then (Inl check_violation, d1)
         else if s_id row \<in> set (map s_id (sales d)) then (Inl unique_violation, d1)
         else if pid \<in> set (map p_id (products d)) then (Inr (s_id row), d1\<lparr>sales := sales d @ [row]\<rparr>)
         else (Inl foreign_key_violation, d1))"

text \<open>
  \<^verbatim>\<open>SELECT s.id, ... FROM sales s JOIN products p ON s.product_id = p.id LEFT JOIN
  categories c ... WHERE s.id = $1\<close>
\<close>

definition select_sale :: "int \<Rightarrow> db \<Rightarrow> sale list result" where
  "select_sale sid d =
     (Inr (filter (\<lambda>s. s_id s = sid \<and> s_product_id s \<in> set (map p_id (products d))) (sales d)), d)"

section \<open>Responses\<close>

text \<open>
  The JSON bodies the handlers send: \<^verbatim>\<open>{error: message}\<close>; the row of a product with the
  \<^verbatim>\<open>quantity\<close> joined to it (\<^verbatim>\<open>null\<close> without an inventory row); the row of a sale;
  \<^verbatim>\<open>{product_id, quantity}\<close>; \<^verbatim>\<open>{product_id, previous_quantity, new_quantity}\<close>; and
  \<^verbatim>\<open>rows[0]\<close> of an empty result.
\<close>

datatype body =
  Error string
| Product_json product "int option"
| Sale_json sale
| Inventory_created int int
| Inventory_updated int int int
| Undefined

text \<open>
  A handler answers with a status and a body, or an exception leaves it outside its
  \<^verbatim>\<open>try\<close> block and no answer is written by the handler.
\<close>

datatype outcome = Sent nat body | Uncaught

text \<open>The last middleware of \<^verbatim>\<open>index.js\<close>, reached by \<^verbatim>\<open>next(err)\<close>.\<close>

definition internal_server_error :: outcome where
  "internal_server_error = Sent 500 (Error ''Internal Server Error'')"

section \<open>\<^verbatim>\<open>POST /api/products\<close>\<close>

text \<open>\<^verbatim>\<open>src/routes/products.js\<close>, lines 78 to 154. The fields of \<^verbatim>\<open>req.body\<close>:\<close>

record product_body =
  name :: jsval
  description :: jsval
  price :: jsval
  category_id :: jsval
  initial_quantity :: jsval

text \<open>
  \<^verbatim>\<open>description ? description.trim() : ""\<close>; a truthy value that is no string has no
  \<^verbatim>\<open>trim\<close>, and the call throws (\<open>None\<close>).
\<close>

definition trim_description :: "jsval \<Rightarrow> string option" where
  "trim_description v =
     (if falsy v then Some []
      else case v of JStr s \<Rightarrow> Some (trim s) | _ \<Rightarrow> None)"

fun string_of :: "jsval \<Rightarrow> string" where
  "string_of (JStr s) = s"
| "string_of v = []"

text \<open>The \<^verbatim>\<open>try\<close> block: four statements, each one a call of \<^verbatim>\<open>db.query\<close>.\<close>

definition post_products_try ::
  "(nat \<Rightarrow> bool) \<Rightarrow> db \<Rightarrow> string \<Rightarrow> string \<Rightarrow> int \<Rightarrow> int \<Rightarrow> int \<Rightarrow> outcome \<times> db" where
  "post_products_try rejected d nm descr pr cat initial =
     (case query (rejected 1) (insert_product nm descr pr cat) d of
        (Inl err, d1) \<Rightarrow> (internal_server_error, d1)
      | (Inr newProd, d1) \<Rightarrow>
     (case query (rejected 2) (insert_inventory (p_id newProd) initial) d1 of
        (Inl err, d2) \<Rightarrow> (internal_server_error, d2)
      | (Inr u, d2) \<Rightarrow>
     (case query (rejected 3) (insert_inventory_history (p_id newProd) initial 0 initial) d2 of
        (Inl err, d3) \<Rightarrow> (internal_server_error, d3)
      | (Inr u, d3) \<Rightarrow>
     (case query (rejected 4) (select_product_quantity (p_id newProd)) d3 of
        (Inl err, d4) \<Rightarrow> (internal_server_error, d4)
      | (Inr fullRes, d4) \<Rightarrow>
          (Sent 201 (case fullRes of [] \<Rightarrow> Undefined | (p, q) # rows \<Rightarrow> Product_json p q), d4)))))"

text \<open>
  The checks before the \<^verbatim>\<open>try\<close> block, each an early \<^verbatim>\<open>return res.status(400)\<close> with its
  message. \<open>parseFloat\<close> stands for JavaScript's function of that name (\<open>None\<close> is
  \<^verbatim>\<open>NaN\<close>): the handler reads whether the price is a number and whether it is negative, and
  sends it to the store.
\<close>

definition product_body_error :: "(jsval \<Rightarrow> real option) \<Rightarrow> product_body \<Rightarrow> string option" where
  "product_body_error parseFloat b =
     (if falsy (name b) \<or> typeof (name b) \<noteq> ''string''
      then Some ''Product name is required.''
      else if nullish (price b) \<or> isNaN (parseFloat (price b)) \<or> js_less (parseFloat (price b)) 0
      then Some ''Price must be a non-negative number.''
      else if falsy (category_id b) \<or> isNaN (parseInt (category_id b))
      then Some ''category_id is required and must be a valid integer.''
      else if nullish (initial_quantity b) \<or> isNaN (parseInt (initial_quantity b))
              \<or> js_less (parseInt (initial_quantity b)) 0
      then Some ''initial_quantity is required and must be a non-negative integer.''
      else None)"

definition post_products ::
  "(jsval \<Rightarrow> real option) \<Rightarrow> (nat \<Rightarrow> bool) \<Rightarrow> db \<Rightarrow> product_body \<Rightarrow> outcome \<times> db" where
  "post_products parseFloat rejected d b =
     (case product_body_error parseFloat b of
        Some message \<Rightarrow> (Sent 400 (Error message), d)
      | None \<Rightarrow>
         (case trim_description (description b) of
            None \<Rightarrow> (Uncaught, d)
          | Some descr \<Rightarrow>
              post_products_try rejected d (trim (string_of (name b))) descr
                (cents (the (parseFloat (price b))))
                (the (parseInt (category_id b))) (the (parseInt (initial_quantity b)))))"

section \<open>\<^verbatim>\<open>POST /api/sales\<close>\<close>

text \<open>\<^verbatim>\<open>src/routes/sales.js\<close>, lines 308 to 389. The fields of \<^verbatim>\<open>req.body\<close>:\<close>

record sale_body =
  product_id :: jsval
  quantity :: jsval
  sale_date :: jsval

text \<open>
  The \<^verbatim>\<open>try\<close> block. \<^verbatim>\<open>product_id\<close> and \<^verbatim>\<open>quantity\<close> go to the store as they came in the
  body; the arithmetic is on \<^verbatim>\<open>parseInt(quantity, 10)\<close>. \<^verbatim>\<open>totPrice\<close> is the product of
  the price and the quantity, exactly and in cents; the handler computes it in floating
  point and prints it with two decimals, which is the same amount wherever the column
  can hold it.
\<close>

definition post_sales_try :: "(nat \<Rightarrow> bool) \<Rightarrow> db \<Rightarrow> sale_body \<Rightarrow> outcome \<times> db" where
  "post_sales_try rejected d b =
     (case query (rejected 1) (with_integer (product_id b) select_price) d of
        (Inl err, d1) \<Rightarrow> (internal_server_error, d1)
      | (Inr [], d1) \<Rightarrow> (Sent 404 (Error ''Product not found.''), d1)
      | (Inr (price0 # others), d1) \<Rightarrow>
     (let totPrice = price0 * the (parseInt (quantity b)) in
     (case query (rejected 2)
             (with_integer (product_id b)
                (\<lambda>p. with_integer (quantity b) (\<lambda>q. insert_sale p q totPrice))) d1 of
        (Inl err, d2) \<Rightarrow> (internal_server_error, d2)
      | (Inr saleId, d2) \<Rightarrow>
     (case query (rejected 3) (with_integer (product_id b) select_inventory) d2 of
        (Inl err, d3) \<Rightarrow> (internal_server_error, d3)
      | (Inr invRes, d3) \<Rightarrow>
     (let currQty = (case invRes of [] \<Rightarrow> 0 | q # rows \<Rightarrow> q);
          newQty = max 0 (currQty - the (parseInt (quantity b)))
      in
     (case query (rejected 4) (with_integer (product_id b) (update_inventory newQty)) d3 of
        (Inl err, d4) \<Rightarrow> (internal_server_error, d4)
      | (Inr u, d4) \<Rightarrow>
     (case query (rejected 5)
             (with_integer (product_id b)
                (\<lambda>p. insert_inventory_history p (- the (parseInt (quantity b))) currQty newQty)) d4 of
        (Inl err, d5) \<Rightarrow> (internal_server_error, d5)
      | (Inr u, d5) \<Rightarrow>
     (case query (rejected 6) (select_sale saleId) d5 of
        (Inl err, d6) \<Rightarrow> (internal_server_error, d6)
      | (Inr fullSale, d6) \<Rightarrow>
          (Sent 201 (case fullSale of [] \<Rightarrow> Undefined | s # rows \<Rightarrow> Sale_json s), d6)))))))))"

text \<open>
  The checks before the \<^verbatim>\<open>try\<close> block. \<open>invalid_date v\<close> stands for
  \<^verbatim>\<open>isNaN(new Date(v).getTime())\<close>; without a \<^verbatim>\<open>sale_date\<close> the date is now.
\<close>

definition sale_body_error :: "(jsval \<Rightarrow> bool) \<Rightarrow> sale_body \<Rightarrow> string option" where
  "sale_body_error invalid_date b =
     (if falsy (product_id b) \<or> isNaN (parseInt (product_id b))
      then Some ''Valid product_id is required.''
      else if falsy (quantity b) \<or> isNaN (parseInt (quantity b))
              \<or> js_less_eq (parseInt (quantity b)) 0
      then Some ''quantity must be a positive integer.''
      else if (if falsy (sale_date b) then False else invalid_date (sale_date b))
      then Some ''Invalid sale_date format.''
      else None)"

definition post_sales ::
  "(jsval \<Rightarrow> bool) \<Rightarrow> (nat \<Rightarrow> bool) \<Rightarrow> db \<Rightarrow> sale_body \<Rightarrow> outcome \<times> db" where
  "post_sales invalid_date rejected d b =
     (case sale_body_error invalid_date b of
        Some message \<Rightarrow> (Sent 400 (Error message), d)
      | None \<Rightarrow> post_sales_try rejected d b)"

section \<open>\<^verbatim>\<open>PUT /api/inventory/:product_id\<close>\<close>

text \<open>
  The inventory router, lines 64 to 137: \<^verbatim>\<open>req.params.product_id\<close>, a string, and the field
  of \<^verbatim>\<open>req.body\<close>.
\<close>

record inventory_put =
  param_product_id :: string
  new_quantity :: jsval

text \<open>
  The \<^verbatim>\<open>try\<close> block. Without an inventory row the product is looked up and, when it
  exists, gets its first row and an entry that starts at 0; with one, the rows of the
  product are updated and the entry starts at \<^verbatim>\<open>rows[0].quantity\<close>.
\<close>

definition put_inventory_try :: "(nat \<Rightarrow> bool) \<Rightarrow> db \<Rightarrow> int \<Rightarrow> int \<Rightarrow> outcome \<times> db" where
  "put_inventory_try rejected d productId newQty =
     (case query (rejected 1) (select_inventory productId) d of
        (Inl err, d1) \<Rightarrow> (internal_server_error, d1)
      | (Inr [], d1) \<Rightarrow>
         (case query (rejected 2) (select_product productId) d1 of
            (Inl err, d2) \<Rightarrow> (internal_server_error, d2)
          | (Inr prodCheck, d2) \<Rightarrow>
         if prodCheck = [] then (Sent 404 (Error ''Product not found.''), d2)
         else
         (case query (rejected 3) (insert_inventory productId newQty) d2 of
            (Inl err, d3) \<Rightarrow> (internal_server_error, d3)
          | (Inr u, d3) \<Rightarrow>
         (case query (rejected 4) (insert_inventory_history productId newQty 0 newQty) d3 of
            (Inl err, d4) \<Rightarrow> (internal_server_error, d4)
          | (Inr u, d4) \<Rightarrow> (Sent 200 (Inventory_created productId newQty), d4))))
      | (Inr (prevQty # rows), d1) \<Rightarrow>
         (case query (rejected 2) (update_inventory newQty productId) d1 of
            (Inl err, d2) \<Rightarrow> (internal_server_error, d2)
          | (Inr u, d2) \<Rightarrow>
         (let changeQty = newQty - prevQty in
         (case query (rejected 3) (insert_inventory_history productId changeQty prevQty newQty) d2 of
            (Inl err, d3) \<Rightarrow> (internal_server_error, d3)
          | (Inr u, d3) \<Rightarrow> (Sent 200 (Inventory_updated productId prevQty newQty), d3)))))"

text \<open>The checks before the \<^verbatim>\<open>try\<close> block.\<close>

definition inventory_put_error :: "inventory_put \<Rightarrow> string option" where
  "inventory_put_error r =
     (if isNaN (parseInt_string (param_product_id r))
      then Some ''Invalid product_id.''
      else if nullish (new_quantity r) \<or> isNaN (parseInt (new_quantity r))
              \<or> js_less (parseInt (new_quantity r)) 0
      then Some ''new_quantity is required and must be a non-negative integer.''
      else None)"

definition put_inventory :: "(nat \<Rightarrow> bool) \<Rightarrow> db \<Rightarrow> inventory_put \<Rightarrow> outcome \<times> db" where
  "put_inventory rejected d r =
     (case inventory_put_error r of
        Some message \<Rightarrow> (Sent 400 (Error message), d)
      | None \<Rightarrow>
          put_inventory_try rejected d (the (parseInt_string (param_product_id r)))
            (the (parseInt (new_quantity r))))"

section \<open>Requests in sequence\<close>

datatype request =
  Create_product product_body
| Record_sale sale_body
| Set_inventory inventory_put

text \<open>One request, served while the store rejects nothing for outside reasons.\<close>

definition serve ::
  "(jsval \<Rightarrow> real option) \<Rightarrow> (jsval \<Rightarrow> bool) \<Rightarrow> db \<Rightarrow> request \<Rightarrow> outcome \<times> db" where
  "serve parseFloat invalid_date d r =
     (case r of
        Create_product b \<Rightarrow> post_products parseFloat (\<lambda>k. False) d b
      | Record_sale b \<Rightarrow> post_sales invalid_date (\<lambda>k. False) d b
      | Set_inventory b \<Rightarrow> put_inventory (\<lambda>k. False) d b)"

text \<open>Requests served one after the other: the store after the last one.\<close>

fun run ::
  "(jsval \<Rightarrow> real option) \<Rightarrow> (jsval \<Rightarrow> bool) \<Rightarrow> db \<Rightarrow> request list \<Rightarrow> db" where
  "run parseFloat invalid_date d [] = d"
| "run parseFloat invalid_date d (r # rs) =
     run parseFloat invalid_date (snd (serve parseFloat invalid_date d r)) rs"

text \<open>
  One request together with the statements of it that the store rejects, and such requests
  one after the other.
\<close>

definition attempt ::
  "(jsval \<Rightarrow> real option) \<Rightarrow> (jsval \<Rightarrow> bool) \<Rightarrow> db \<Rightarrow> request \<times> (nat \<Rightarrow> bool) \<Rightarrow>
     outcome \<times> db" where
  "attempt parseFloat invalid_date d a =
     (case a of
        (Create_product b, rejected) \<Rightarrow> post_products parseFloat rejected d b
      | (Record_sale b, rejected) \<Rightarrow> post_sales invalid_date rejected d b
      | (Set_inventory b, rejected) \<Rightarrow> put_inventory rejected d b)"

fun run_attempts ::
  "(jsval \<Rightarrow> real option) \<Rightarrow> (jsval \<Rightarrow> bool) \<Rightarrow> db \<Rightarrow> (request \<times> (nat \<Rightarrow> bool)) list \<Rightarrow> db"
  where
  "run_attempts parseFloat invalid_date d [] = d"
| "run_attempts parseFloat invalid_date d (a # as) =
     run_attempts parseFloat invalid_date (snd (attempt parseFloat invalid_date d a)) as"

section \<open>The ledger\<close>

text \<open>
  The quantity of a product as every reader takes it: \<^verbatim>\<open>COALESCE(i.quantity, 0)\<close>,
  \<^verbatim>\<open>rows[0]?.quantity || 0\<close>.
\<close>

definition stock :: "db \<Rightarrow> int \<Rightarrow> int" where
  "stock d pid =
     (case filter (\<lambda>r. i_product_id r = pid) (inventory d) of
        [] \<Rightarrow> 0
      | r # rows \<Rightarrow> i_quantity r)"

text \<open>The history of one product, oldest entry first.\<close>

definition history_of :: "db \<Rightarrow> int \<Rightarrow> history_entry list" where
  "history_of d pid = filter (\<lambda>h. h_product_id h = pid) (inventory_history d)"

fun chained :: "history_entry list \<Rightarrow> bool" where
  "chained (e # e' # es) = (new_qty e = previous_qty e' \<and> chained (e' # es))"
| "chained es = True"

text \<open>The foreign keys of \<^verbatim>\<open>inventory\<close> and \<^verbatim>\<open>inventory_history\<close>.\<close>

definition referential :: "db \<Rightarrow> bool" where
  "referential d =
     (list_all (\<lambda>r. i_product_id r \<in> set (map p_id (products d))) (inventory d) \<and>
      list_all (\<lambda>h. h_product_id h \<in> set (map p_id (products d))) (inventory_history d))"

text \<open>
  A store whose ledger is in order: every history is a chain, and the chain of a product
  ends at its stock.
\<close>

definition ledger_chained :: "db \<Rightarrow> bool" where
  "ledger_chained d =
     (referential d \<and>
      list_all
        (\<lambda>h. chained (history_of d (h_product_id h)) \<and>
             new_qty (last (history_of d (h_product_id h))) = stock d (h_product_id h))
        (inventory_history d))"

text \<open>
  A request ran to its entry: when it left \<^verbatim>\<open>inventory\<close> changed, it also added to
  \<^verbatim>\<open>inventory_history\<close>. It fails when a statement is rejected between the two writes.
\<close>

definition entry_follows :: "db \<Rightarrow> db \<Rightarrow> bool" where
  "entry_follows d d' =
     (if inventory d' = inventory d then True
      else inventory_history d' \<noteq> inventory_history d)"

text \<open>Every request of a run ran to its entry.\<close>

fun entries_follow ::
  "(jsval \<Rightarrow> real option) \<Rightarrow> (jsval \<Rightarrow> bool) \<Rightarrow> db \<Rightarrow> (request \<times> (nat \<Rightarrow> bool)) list \<Rightarrow> bool"
  where
  "entries_follow parseFloat invalid_date d [] = True"
| "entries_follow parseFloat invalid_date d (a # as) =
     (entry_follows d (snd (attempt parseFloat invalid_date d a)) \<and>
      entries_follow parseFloat invalid_date (snd (attempt parseFloat invalid_date d a)) as)"

text \<open>\<^verbatim>\<open>sum(history.change_qty)\<close> of one product.\<close>

definition ledger_sum :: "db \<Rightarrow> int \<Rightarrow> int" where
  "ledger_sum d pid = sum_list (map change_qty (history_of d pid))"

section \<open>Sales in flight\<close>

text \<open>
  The handler of a sale gives up control at each \<^verbatim>\<open>await db.query(...)\<close>, and another
  request may run its next statement before this one goes on. A sale in flight is the
  statement it waits to send, with the local variables it holds: \<^verbatim>\<open>totPrice\<close>, then
  \<^verbatim>\<open>saleId\<close>, \<^verbatim>\<open>currQty\<close> and \<^verbatim>\<open>newQty\<close>.
\<close>

datatype sale_progress =
  Select_product
| Insert_sale int
| Select_inventory int
| Update_inventory int int int
| Insert_history int int int
| Select_sale int
| Finished outcome

text \<open>One statement of the \<^verbatim>\<open>try\<close> block and the code up to the next \<^verbatim>\<open>await\<close>.\<close>

fun sale_step :: "(nat \<Rightarrow> bool) \<Rightarrow> sale_body \<Rightarrow> sale_progress \<Rightarrow> db \<Rightarrow> sale_progress \<times> db" where
  "sale_step rejected b Select_product d =
     (case query (rejected 1) (with_integer (product_id b) select_price) d of
        (Inl err, d1) \<Rightarrow> (Finished internal_server_error, d1)
      | (Inr [], d1) \<Rightarrow> (Finished (Sent 404 (Error ''Product not found.'')), d1)
      | (Inr (price0 # others), d1) \<Rightarrow>
          (Insert_sale (price0 * the (parseInt (quantity b))), d1))"
| "sale_step rejected b (Insert_sale totPrice) d =
     (case query (rejected 2)
             (with_integer (product_id b)
                (\<lambda>p. with_integer (quantity b) (\<lambda>q. insert_sale p q totPrice))) d of
        (Inl err, d2) \<Rightarrow> (Finished internal_server_error, d2)
      | (Inr saleId, d2) \<Rightarrow> (Select_inventory saleId, d2))"
| "sale_step rejected b (Select_inventory saleId) d =
     (case query (rejected 3) (with_integer (product_id b) select_inventory) d of
        (Inl err, d3) \<Rightarrow> (Finished internal_server_error, d3)
      | (Inr invRes, d3) \<Rightarrow>
          (let currQty = (case invRes of [] \<Rightarrow> 0 | q # rows \<Rightarrow> q);
               newQty = max 0 (currQty - the (parseInt (quantity b)))
           in (Update_inventory saleId currQty newQty, d3)))"
| "sale_step rejected b (Update_inventory saleId currQty newQty) d =
     (case query (rejected 4) (with_integer (product_id b) (update_inventory newQty)) d of
        (Inl err, d4) \<Rightarrow> (Finished internal_server_error, d4)
      | (Inr u, d4) \<Rightarrow> (Insert_history saleId currQty newQty, d4))"
| "sale_step rejected b (Insert_history saleId currQty newQty) d =
     (case query (rejected 5)
             (with_integer (product_id b)
                (\<lambda>p. insert_inventory_history p (- the (parseInt (quantity b))) currQty newQty)) d of
        (Inl err, d5) \<Rightarrow> (Finished internal_server_error, d5)
      | (Inr u, d5) \<Rightarrow> (Select_sale saleId, d5))"
| "sale_step rejected b (Select_sale saleId) d =
     (case query (rejected 6) (select_sale saleId) d of
        (Inl err, d6) \<Rightarrow> (Finished internal_server_error, d6)
      | (Inr fullSale, d6) \<Rightarrow>
          (Finished (Sent 201 (case fullSale of [] \<Rightarrow> Undefined | s # rows \<Rightarrow> Sale_json s)), d6))"
| "sale_step rejected b (Finished result) d = (Finished result, d)"

text \<open>A sale that runs alone: its statements one after the other.\<close>

fun sale_steps :: "nat \<Rightarrow> (nat \<Rightarrow> bool) \<Rightarrow> sale_body \<Rightarrow> sale_progress \<Rightarrow> db \<Rightarrow> sale_progress \<times> db" where
  "sale_steps 0 rejected b t d = (t, d)"
| "sale_steps (Suc n) rejected b t d =
     (case sale_step rejected b t d of (t', d') \<Rightarrow> sale_steps n rejected b t' d')"

text \<open>
  Sales in flight together: the schedule names, statement by statement, the sale whose
  turn it is.
\<close>

fun interleave ::
  "nat list \<Rightarrow> (sale_body \<times> sale_progress) list \<Rightarrow> db \<Rightarrow> (sale_body \<times> sale_progress) list \<times> db" where
  "interleave [] ts d = (ts, d)"
| "interleave (i # schedule) ts d =
     (if i < length ts
      then (case sale_step (\<lambda>k. False) (fst (ts ! i)) (snd (ts ! i)) d of
              (t', d') \<Rightarrow> interleave schedule (ts[i := (fst (ts ! i), t')]) d')
      else interleave schedule ts d)"

section \<open>Example stores and requests\<close>

text \<open>
  A store with one category and one product at the price of 25.00, as
  \<^verbatim>\<open>POST /api/products\<close> with \<^verbatim>\<open>initial_quantity\<close> \<open>n\<close> leaves an empty one, on a server that
  reads plain decimal integers only.
\<close>

definition shop :: "int \<Rightarrow> db" where
  "shop n =
     \<lparr>categories = [1],
      products = [\<lparr>p_id = 1, p_name = ''Garden Tool X'', p_description = [], p_category_id = Some 1\<rparr>],
      products_id_seq = 2,
      inventory = [\<lparr>i_product_id = 1, i_quantity = n\<rparr>],
      inventory_history = [\<lparr>h_product_id = 1, change_qty = n, previous_qty = 0, new_qty = n\<rparr>],
      sales = [],
      sales_id_seq = 1,
      product_prices = [(1, 2500)],
      integer_forms = Map.empty\<rparr>"

text \<open>The same product, with no row in \<^verbatim>\<open>inventory\<close> and no history.\<close>

definition unstocked :: db where
  "unstocked =
     \<lparr>categories = [1],
      products = [\<lparr>p_id = 1, p_name = ''Garden Tool X'', p_description = [], p_category_id = Some 1\<rparr>],
      products_id_seq = 2,
      inventory = [],
      inventory_history = [],
      sales = [],
      sales_id_seq = 1,
      product_prices = [(1, 2500)],
      integer_forms = Map.empty\<rparr>"

text \<open>The bodies \<^verbatim>\<open>{product_id: p, quantity: q}\<close> and \<^verbatim>\<open>{new_quantity: v}\<close> on path \<open>p\<close>.\<close>

definition sale_of :: "int \<Rightarrow> int \<Rightarrow> sale_body" where
  "sale_of p q = \<lparr>product_id = JNum p, quantity = JNum q, sale_date = JUndefined\<rparr>"

definition set_to :: "string \<Rightarrow> jsval \<Rightarrow> inventory_put" where
  "set_to p v = \<lparr>param_product_id = p, new_quantity = v\<rparr>"

text \<open>
  \<^verbatim>\<open>{name: "Garden Tool X", price: 25, category_id: c, initial_quantity: q}\<close>, without a
  description.
\<close>

definition new_product :: "int \<Rightarrow> int \<Rightarrow> product_body" where
  "new_product c q =
     \<lparr>name = JStr ''Garden Tool X'', description = JUndefined, price = JNum 25,
      category_id = JNum c, initial_quantity = JNum q\<rparr>"

text \<open>\<^verbatim>\<open>parseFloat\<close> where its value is plain: on an integral number.\<close>

fun integral_price :: "jsval \<Rightarrow> real option" where
  "integral_price (JNum n) = Some (real_of_int n)"
| "integral_price v = None"

text \<open>
  A reading of dates that takes none for valid. The example bodies carry no \<^verbatim>\<open>sale_date\<close>,
  so it is never asked.
\<close>

definition no_date :: "jsval \<Rightarrow> bool" where
  "no_date v = True"

text \<open>The store rejects nothing; the store rejects the \<open>n\<close>-th statement of the request.\<close>

definition accepting :: "nat \<Rightarrow> bool" where
  "accepting k = False"

definition rejecting :: "nat \<Rightarrow> nat \<Rightarrow> bool" where
  "rejecting n k = (k = n)"

text \<open>Two sales of one unit of product 1, each at its first statement.\<close>

definition two_sales :: "(sale_body \<times> sale_progress) list" where
  "two_sales = [(sale_of 1 1, Select_product), (sale_of 1 1, Select_product)]"

text \<open>The two take turns, statement by statement, until both have answered.\<close>

definition in_turn :: "nat list" where
  "in_turn = [0, 1, 0, 1, 0, 1, 0, 1, 0, 1, 0, 1]"

section \<open>What a request leaves behind\<close>

text \<open>The rows of the three relations a product's creation writes.\<close>

definition persisted :: "db \<Rightarrow> product list \<times> inventory_row list \<times> history_entry list" where
  "persisted d = (products d, inventory d, inventory_history d)"

text \<open>An entry whose three quantities agree.\<close>

definition balanced :: "history_entry \<Rightarrow> bool" where
  "balanced e = (new_qty e = previous_qty e + change_qty e \<and> 0 \<le> new_qty e)"

section \<open>Unfolding\<close>

lemmas js_defs = white_space_def digit_def digit_value_def decimal_def signum_def unsigned_def
  parseInt_string_def isNaN_def js_less_def js_less_eq_def trim_def decimal_integer_def int4_def
  int4in_def

lemmas store_defs = query_def with_integer_def insert_product_def insert_inventory_def
  insert_inventory_history_def select_inventory_def update_inventory_def select_product_def
  select_price_def price_of_def select_product_quantity_def insert_sale_def select_sale_def

lemmas handler_defs = internal_server_error_def trim_description_def post_products_try_def
  product_body_error_def post_products_def post_sales_try_def sale_body_error_def post_sales_def
  put_inventory_try_def inventory_put_error_def put_inventory_def serve_def

lemmas example_defs = shop_def unstocked_def sale_of_def set_to_def new_product_def no_date_def
  accepting_def rejecting_def two_sales_def in_turn_def

section \<open>What passes the checks\<close>

lemma decimal_integer_parseInt: "decimal_integer s = Some n \<Longrightarrow> parseInt_string s = Some n"
  by (simp add: decimal_integer_def parseInt_string_def Let_def split: if_splits)

text \<open>
  On a server that reads plain decimal integers only, what the store reads as an integer,
  \<^verbatim>\<open>parseInt\<close> reads as the same integer.
\<close>

lemma pg_integer_parseInt:
  assumes "pg_integer Map.empty v = Some n"
  shows "parseInt v = Some n"
  using assms
  by (cases v)
    (auto simp: int4in_def decimal_integer_parseInt split: option.splits if_splits)

text \<open>
  A number within \<^verbatim>\<open>INTEGER\<close> and a plain decimal integer within \<^verbatim>\<open>INTEGER\<close> are read by every
  server, and as \<^verbatim>\<open>parseInt\<close> reads them.
\<close>

lemma plain_integer_read:
  assumes "v = JNum n \<or> v = JStr s \<and> decimal_integer s = Some n" and "int4 n"
  shows "pg_integer forms v = Some n \<and> parseInt v = Some n"
  using assms by (auto simp: int4in_def decimal_integer_parseInt)

lemma sale_body_valid:
  assumes "sale_body_error invalid_date b = None"
  shows "\<exists>q. parseInt (quantity b) = Some q \<and> 0 < q"
  using assms
  by (auto simp: sale_body_error_def isNaN_def js_less_eq_def split: if_splits option.splits)

lemma product_body_valid:
  assumes "product_body_error parseFloat b = None"
  shows "\<exists>c q. parseInt (category_id b) = Some c \<and> parseInt (initial_quantity b) = Some q \<and> 0 \<le> q"
  using assms
  by (auto simp: product_body_error_def isNaN_def js_less_def split: if_splits option.splits)

lemma inventory_put_valid:
  assumes "inventory_put_error r = None"
  shows "\<exists>p q. parseInt_string (param_product_id r) = Some p \<and>
           parseInt (new_quantity r) = Some q \<and> 0 \<le> q"
  using assms
  by (auto simp: inventory_put_error_def isNaN_def js_less_def split: if_splits option.splits)

section \<open>Rows of one product\<close>


lemma rows_after_update:
  "filter (\<lambda>r. i_product_id r = p)
     (map (\<lambda>r. if i_product_id r = pid then r\<lparr>i_quantity := new\<rparr> else r) rows) =
   (if p = pid then map (\<lambda>r. r\<lparr>i_quantity := new\<rparr>) (filter (\<lambda>r. i_product_id r = pid) rows)
    else filter (\<lambda>r. i_product_id r = p) rows)"
  by (induction rows) auto

lemma chained_snoc:
  "chained (es @ [e]) = (chained es \<and> (es = [] \<or> new_qty (last es) = previous_qty e))"
  by (induction es rule: chained.induct) auto

section \<open>The ledger stays in order\<close>

lemma ledger_chained_iff:
  "ledger_chained d =
     (referential d \<and>
      (\<forall>p. chained (history_of d p) \<and>
           (history_of d p \<noteq> [] \<longrightarrow> new_qty (last (history_of d p)) = stock d p)))"
proof -
  have "chained (history_of d p) \<and>
        (history_of d p \<noteq> [] \<longrightarrow> new_qty (last (history_of d p)) = stock d p)"
    if all: "\<forall>h \<in> set (inventory_history d).
               chained (history_of d (h_product_id h)) \<and>
               new_qty (last (history_of d (h_product_id h))) = stock d (h_product_id h)"
    for p
  proof (cases "history_of d p")
    case Nil
    then show ?thesis by simp
  next
    case (Cons h hs)
    then have "h \<in> set (history_of d p)" by simp
    then have "h \<in> set (inventory_history d)" and "h_product_id h = p"
      by (simp_all add: history_of_def)
    with all show ?thesis by auto
  qed
  moreover have "history_of d (h_product_id h) \<noteq> []" if "h \<in> set (inventory_history d)" for h
    using that by (auto simp: history_of_def filter_empty_conv)
  ultimately show ?thesis
    unfolding ledger_chained_def list_all_iff by blast
qed

text \<open>A request that writes neither to \<^verbatim>\<open>inventory\<close> nor to \<^verbatim>\<open>inventory_history\<close>.\<close>

lemma ledger_same:
  assumes "ledger_chained d"
    and "set (map p_id (products d)) \<subseteq> set (map p_id (products d'))"
    and "inventory d' = inventory d"
    and "inventory_history d' = inventory_history d"
  shows "ledger_chained d'"
  using assms unfolding ledger_chained_iff
  by (auto simp: referential_def list_all_iff history_of_def stock_def)

text \<open>
  An \<^verbatim>\<open>UPDATE\<close> of the product's rows and an entry that starts at the stock read before.
  Without a row the \<^verbatim>\<open>UPDATE\<close> changes nothing, and the entry must end at 0.
\<close>

lemma ledger_update:
  assumes L: "ledger_chained d"
    and P: "pid \<in> set (map p_id (products d))"
    and N: "filter (\<lambda>r. i_product_id r = pid) (inventory d) = [] \<Longrightarrow> new = 0"
    and prods: "products d' = products d"
    and inv: "inventory d' =
           map (\<lambda>r. if i_product_id r = pid then r\<lparr>i_quantity := new\<rparr> else r) (inventory d)"
    and hist: "inventory_history d' = inventory_history d @
           [\<lparr>h_product_id = pid, change_qty = c, previous_qty = stock d pid, new_qty = new\<rparr>]"
  shows "ledger_chained d'"
proof -
  have ref: "referential d'"
    using L P unfolding ledger_chained_iff referential_def list_all_iff
    by (auto simp: prods inv hist)
  have st: "stock d' p = (if p = pid then new else stock d p)" for p
    using N by (auto simp: stock_def inv rows_after_update split: list.splits)
  have hi: "history_of d' p = history_of d p @
      (if p = pid
       then [\<lparr>h_product_id = pid, change_qty = c, previous_qty = stock d pid, new_qty = new\<rparr>]
       else [])" for p
    by (simp add: history_of_def hist)
  show ?thesis
    unfolding ledger_chained_iff
    using L ref by (auto simp: ledger_chained_iff st hi chained_snoc)
qed

text \<open>The first row of a product in \<^verbatim>\<open>inventory\<close>, with an entry that starts at 0.\<close>

lemma ledger_insert:
  assumes L: "ledger_chained d"
    and P: "pid \<in> set (map p_id (products d'))"
    and N: "filter (\<lambda>r. i_product_id r = pid) (inventory d) = []"
    and prods: "set (map p_id (products d)) \<subseteq> set (map p_id (products d'))"
    and inv: "inventory d' = inventory d @ [\<lparr>i_product_id = pid, i_quantity = new\<rparr>]"
    and hist: "inventory_history d' = inventory_history d @
           [\<lparr>h_product_id = pid, change_qty = c, previous_qty = 0, new_qty = new\<rparr>]"
  shows "ledger_chained d'"
proof -
  have ref: "referential d'"
    using L P prods unfolding ledger_chained_iff referential_def list_all_iff
    by (auto simp: inv hist)
  have st: "stock d' p = (if p = pid then new else stock d p)" for p
    using N by (auto simp: stock_def inv split: list.splits)
  have zero: "stock d pid = 0"
    using N by (simp add: stock_def)
  have hi: "history_of d' p = history_of d p @
      (if p = pid
       then [\<lparr>h_product_id = pid, change_qty = c, previous_qty = 0, new_qty = new\<rparr>]
       else [])" for p
    by (simp add: history_of_def hist)
  show ?thesis
    unfolding ledger_chained_iff
    using L ref zero by (auto simp: ledger_chained_iff st hi chained_snoc)
qed

section \<open>What a request writes\<close>

text \<open>
  Whatever the store rejects, a sale leaves \<^verbatim>\<open>inventory\<close> and \<^verbatim>\<open>inventory_history\<close> as they
  were, or updates the rows of its product and then appends its entry or not.
\<close>

lemma post_sales_writes:
  assumes "sale_body_error invalid_date b = None"
    and "pg_integer (integer_forms d) (product_id b) = Some pid"
    and "pid \<in> set (map p_id (products d))"
    and "parseInt (quantity b) = Some q"
    and "d' = snd (post_sales invalid_date rejected d b)"
    and "new = max 0 (stock d pid - q)"
  shows "products d' = products d \<and>
    (inventory d' = inventory d \<and> inventory_history d' = inventory_history d \<or>
     inventory d' =
       map (\<lambda>r. if i_product_id r = pid then r\<lparr>i_quantity := new\<rparr> else r) (inventory d) \<and>
     (inventory_history d' = inventory_history d \<or>
      inventory_history d' = inventory_history d @
        [\<lparr>h_product_id = pid, change_qty = - q, previous_qty = stock d pid, new_qty = new\<rparr>]))"
proof (cases "rejected 1 \<or> rejected 2 \<or> rejected 3 \<or> rejected 4")
  case True
  with assms show ?thesis
    by (auto simp: post_sales_def post_sales_try_def store_defs Let_def
        split: option.splits list.splits)
next
  case False
  with assms show ?thesis
    by (auto simp: post_sales_def post_sales_try_def store_defs Let_def stock_def
        split: option.splits list.splits)
qed

text \<open>
  A set-inventory call leaves both relations as they were, or adds the first row of its
  product, or updates the rows of its product; then it appends its entry or not.
\<close>

lemma put_inventory_writes:
  assumes "inventory_put_error r = None"
    and "parseInt_string (param_product_id r) = Some pid"
    and "parseInt (new_quantity r) = Some new"
    and "d' = snd (put_inventory rejected d r)"
  shows "products d' = products d \<and>
    (inventory d' = inventory d \<and> inventory_history d' = inventory_history d \<or>
     filter (\<lambda>r. i_product_id r = pid) (inventory d) = [] \<and>
     pid \<in> set (map p_id (products d)) \<and>
     inventory d' = inventory d @ [\<lparr>i_product_id = pid, i_quantity = new\<rparr>] \<and>
     (inventory_history d' = inventory_history d \<or>
      inventory_history d' = inventory_history d @
        [\<lparr>h_product_id = pid, change_qty = new, previous_qty = 0, new_qty = new\<rparr>]) \<or>
     filter (\<lambda>r. i_product_id r = pid) (inventory d) \<noteq> [] \<and>
     inventory d' =
       map (\<lambda>r. if i_product_id r = pid then r\<lparr>i_quantity := new\<rparr> else r) (inventory d) \<and>
     (inventory_history d' = inventory_history d \<or>
      inventory_history d' = inventory_history d @
        [\<lparr>h_product_id = pid, change_qty = new - stock d pid, previous_qty = stock d pid,
          new_qty = new\<rparr>]))"
  using assms
  by (auto simp: put_inventory_def put_inventory_try_def store_defs Let_def stock_def
      split: list.splits)

text \<open>
  A product creation leaves both relations as they were, or adds the first row of the new
  product and then appends its entry or not.
\<close>

lemma post_products_writes:
  assumes "product_body_error parseFloat b = None"
    and "parseInt (initial_quantity b) = Some initial"
    and "d' = snd (post_products parseFloat rejected d b)"
    and "nid = products_id_seq d"
  shows "set (map p_id (products d)) \<subseteq> set (map p_id (products d')) \<and>
    (inventory d' = inventory d \<and> inventory_history d' = inventory_history d \<or>
     nid \<notin> set (map p_id (products d)) \<and>
     nid \<in> set (map p_id (products d')) \<and>
     inventory d' = inventory d @ [\<lparr>i_product_id = nid, i_quantity = initial\<rparr>] \<and>
     (inventory_history d' = inventory_history d \<or>
      inventory_history d' = inventory_history d @
        [\<lparr>h_product_id = nid, change_qty = initial, previous_qty = 0, new_qty = initial\<rparr>]))"
  using assms
  by (auto simp: post_products_def post_products_try_def store_defs Let_def
      split: option.splits)

section \<open>Requests that ran to their entry\<close>

text \<open>
  A request that ran to its entry keeps the ledger in order, whatever the store rejects:
  when an entry is missing, \<^verbatim>\<open>inventory\<close> is as it was.
\<close>

lemma post_sales_ledger:
  assumes L: "ledger_chained d"
    and E: "entry_follows d (snd (post_sales invalid_date rejected d b))"
  shows "ledger_chained (snd (post_sales invalid_date rejected d b))"
proof (cases "sale_body_error invalid_date b")
  case (Some message)
  with L show ?thesis by (simp add: post_sales_def)
next
  case None
  from sale_body_valid[OF None] obtain q where q: "parseInt (quantity b) = Some q" "0 < q"
    by blast
  show ?thesis
  proof (cases "pg_integer (integer_forms d) (product_id b)")
    case no_pid: None
    with L None show ?thesis
      by (simp add: post_sales_def post_sales_try_def query_def with_integer_def)
  next
    case pid: (Some pid)
    show ?thesis
    proof (cases "pid \<in> set (map p_id (products d))")
      case False
      then have "filter (\<lambda>p. p_id p = pid) (products d) = []"
        by (auto simp: filter_empty_conv)
      with L None pid show ?thesis
        by (simp add: post_sales_def post_sales_try_def query_def with_integer_def
            select_price_def)
    next
      case True
      define d' where "d' = snd (post_sales invalid_date rejected d b)"
      define new where "new = max 0 (stock d pid - q)"
      note W = post_sales_writes[OF None pid True q(1) d'_def new_def]
      from E have F: "inventory d' = inventory d \<or> inventory_history d' \<noteq> inventory_history d"
        by (simp add: entry_follows_def d'_def split: if_splits)
      have "ledger_chained d'"
      proof (cases "inventory_history d' = inventory_history d")
        case same: True
        with F W show ?thesis
          by (intro ledger_same[OF L]) simp_all
      next
        case False
        show ?thesis
        proof (rule ledger_update[OF L True])
          show "new = 0" if "filter (\<lambda>r. i_product_id r = pid) (inventory d) = []"
            using that q by (simp add: new_def stock_def)
        qed (use W False in auto)
      qed
      then show ?thesis by (simp add: d'_def)
    qed
  qed
qed

lemma put_inventory_ledger:
  assumes L: "ledger_chained d"
    and E: "entry_follows d (snd (put_inventory rejected d r))"
  shows "ledger_chained (snd (put_inventory rejected d r))"
proof (cases "inventory_put_error r")
  case (Some message)
  with L show ?thesis by (simp add: put_inventory_def)
next
  case None
  from inventory_put_valid[OF None] obtain pid new
    where v: "parseInt_string (param_product_id r) = Some pid"
      "parseInt (new_quantity r) = Some new" "0 \<le> new"
    by blast
  define d' where "d' = snd (put_inventory rejected d r)"
  note W = put_inventory_writes[OF None v(1,2) d'_def]
  from E have F: "inventory d' = inventory d \<or> inventory_history d' \<noteq> inventory_history d"
    by (simp add: entry_follows_def d'_def split: if_splits)
  have "ledger_chained d'"
  proof (cases "inventory_history d' = inventory_history d")
    case same: True
    with F W show ?thesis
      by (intro ledger_same[OF L]) simp_all
  next
    case changed: False
    show ?thesis
    proof (cases "filter (\<lambda>r. i_product_id r = pid) (inventory d)")
      case Nil
      show ?thesis
        by (rule ledger_insert[OF L _ Nil]) (use W changed Nil in auto)
    next
      case (Cons row rows)
      then have "row \<in> set (filter (\<lambda>r. i_product_id r = pid) (inventory d))"
        by simp
      then have "row \<in> set (inventory d)" "i_product_id row = pid"
        by simp_all
      with L have P: "pid \<in> set (map p_id (products d))"
        unfolding ledger_chained_def referential_def list_all_iff by auto
      show ?thesis
        by (rule ledger_update[OF L P]) (use W changed Cons in auto)
    qed
  qed
  then show ?thesis by (simp add: d'_def)
qed

lemma post_products_ledger:
  assumes L: "ledger_chained d"
    and E: "entry_follows d (snd (post_products parseFloat rejected d b))"
  shows "ledger_chained (snd (post_products parseFloat rejected d b))"
proof (cases "product_body_error parseFloat b")
  case (Some message)
  with L show ?thesis by (simp add: post_products_def)
next
  case None
  from product_body_valid[OF None] obtain cat initial
    where v: "parseInt (category_id b) = Some cat" "parseInt (initial_quantity b) = Some initial"
      "0 \<le> initial"
    by blast
  define d' where "d' = snd (post_products parseFloat rejected d b)"
  define nid where "nid = products_id_seq d"
  note W = post_products_writes[OF None v(2) d'_def nid_def]
  from E have F: "inventory d' = inventory d \<or> inventory_history d' \<noteq> inventory_history d"
    by (simp add: entry_follows_def d'_def split: if_splits)
  have "ledger_chained d'"
  proof (cases "inventory_history d' = inventory_history d")
    case same: True
    with F W show ?thesis
      by (intro ledger_same[OF L]) simp_all
  next
    case changed: False
    with W have fresh: "nid \<notin> set (map p_id (products d))"
      by auto
    have norows: "filter (\<lambda>r. i_product_id r = nid) (inventory d) = []"
      using L fresh unfolding ledger_chained_def referential_def list_all_iff
      by (auto simp: filter_empty_conv)
    show ?thesis
      by (rule ledger_insert[OF L _ norows]) (use W changed in auto)
  qed
  then show ?thesis by (simp add: d'_def)
qed

lemma attempt_ledger:
  assumes "ledger_chained d"
    and "entry_follows d (snd (attempt parseFloat invalid_date d a))"
  shows "ledger_chained (snd (attempt parseFloat invalid_date d a))"
  using assms
  by (auto simp: attempt_def post_products_ledger post_sales_ledger put_inventory_ledger
      split: prod.splits request.splits)

lemma run_attempts_ledger:
  assumes "ledger_chained d"
    and "entries_follow parseFloat invalid_date d attempts"
  shows "ledger_chained (run_attempts parseFloat invalid_date d attempts)"
  using assms
  by (induction attempts arbitrary: d) (simp_all add: attempt_ledger)

text \<open>
  When the store rejects no statement, every request runs to its entry, so requests
  served one after the other keep the ledger in order.
\<close>

lemma served_entry_follows:
  assumes "ledger_chained d"
  shows "entry_follows d (snd (serve parseFloat invalid_date d r))"
proof (cases r)
  case (Create_product b)
  then show ?thesis
    by (auto simp: serve_def entry_follows_def post_products_def post_products_try_def
        store_defs Let_def split: option.splits)
next
  case (Record_sale b)
  have found: "pid \<in> p_id ` set (products d)"
    if "filter (\<lambda>p. p_id p = pid) (products d) = p # ps" for pid p ps
  proof -
    from that have "p \<in> set (filter (\<lambda>p. p_id p = pid) (products d))" by simp
    then show ?thesis by auto
  qed
  show ?thesis
  proof (cases "pg_integer (integer_forms d) (product_id b)")
    case None
    then show ?thesis
      by (simp add: Record_sale serve_def entry_follows_def post_sales_def post_sales_try_def
          query_def with_integer_def split: option.splits)
  next
    case (Some pid)
    show ?thesis
    proof (cases "filter (\<lambda>p. p_id p = pid) (products d)")
      case Nil
      with Some show ?thesis
        by (simp add: Record_sale serve_def entry_follows_def post_sales_def post_sales_try_def
            query_def with_integer_def select_price_def split: option.splits)
    next
      case (Cons p ps)
      with Some found[OF Cons] show ?thesis
        by (auto simp: Record_sale serve_def entry_follows_def post_sales_def
            post_sales_try_def store_defs Let_def split: option.splits)
    qed
  qed
next
  case (Set_inventory b)
  have P: "pid \<in> p_id ` set (products d)"
    if "filter (\<lambda>r. i_product_id r = pid) (inventory d) = row # rows" for pid row rows
  proof -
    from that have "row \<in> set (filter (\<lambda>r. i_product_id r = pid) (inventory d))" by simp
    then have "row \<in> set (inventory d)" "i_product_id row = pid" by simp_all
    with assms show ?thesis
      unfolding ledger_chained_def referential_def list_all_iff by auto
  qed
  have found: "pid \<in> p_id ` set (products d)"
    if "filter (\<lambda>p. p_id p = pid) (products d) \<noteq> []" for pid
    using that by (auto simp: filter_empty_conv)
  show ?thesis
  proof (cases "inventory_put_error b")
    case (Some message)
    then show ?thesis
      by (simp add: Set_inventory serve_def entry_follows_def put_inventory_def)
  next
    case None
    from inventory_put_valid[OF None] obtain pid new
      where v: "parseInt_string (param_product_id b) = Some pid"
        "parseInt (new_quantity b) = Some new" "0 \<le> new"
      by blast
    show ?thesis
    proof (cases "filter (\<lambda>r. i_product_id r = pid) (inventory d)")
      case Nil
      with None v found[of pid] show ?thesis
        by (auto simp: Set_inventory serve_def entry_follows_def put_inventory_def
            put_inventory_try_def store_defs)
    next
      case (Cons row rows)
      with None v P[OF Cons] show ?thesis
        by (auto simp: Set_inventory serve_def entry_follows_def put_inventory_def
            put_inventory_try_def store_defs Let_def)
    qed
  qed
qed

lemma serve_ledger:
  assumes "ledger_chained d"
  shows "ledger_chained (snd (serve parseFloat invalid_date d r))"
proof -
  have "serve parseFloat invalid_date d r = attempt parseFloat invalid_date d (r, \<lambda>k. False)"
    by (simp add: serve_def attempt_def split: request.splits)
  with attempt_ledger[OF assms, of parseFloat invalid_date "(r, \<lambda>k. False)"]
    served_entry_follows[OF assms, of parseFloat invalid_date r]
  show ?thesis by simp
qed

lemma run_ledger:
  "ledger_chained d \<Longrightarrow> ledger_chained (run parseFloat invalid_date d rs)"
  by (induction rs arbitrary: d) (simp_all add: serve_ledger)

section \<open>The entry of each path\<close>

text \<open>
  Product creation and set-inventory append at most one entry, and it is balanced,
  whatever the store rejects.
\<close>

lemma created_entry_balanced:
  "inventory_history (snd (post_products parseFloat rejected d b)) = inventory_history d \<or>
   (\<exists>e. inventory_history (snd (post_products parseFloat rejected d b)) =
          inventory_history d @ [e] \<and> balanced e)"
proof (cases "product_body_error parseFloat b")
  case (Some message)
  then show ?thesis by (simp add: post_products_def)
next
  case None
  from product_body_valid[OF None] obtain cat initial
    where v: "parseInt (category_id b) = Some cat" "parseInt (initial_quantity b) = Some initial"
      "0 \<le> initial"
    by blast
  with None show ?thesis
    by (auto simp: post_products_def post_products_try_def store_defs Let_def balanced_def
        split: option.splits)
qed

lemma set_inventory_entry_balanced:
  "inventory_history (snd (put_inventory rejected d r)) = inventory_history d \<or>
   (\<exists>e. inventory_history (snd (put_inventory rejected d r)) = inventory_history d @ [e] \<and>
        balanced e)"
proof (cases "inventory_put_error r")
  case (Some message)
  then show ?thesis by (simp add: put_inventory_def)
next
  case None
  from inventory_put_valid[OF None] obtain pid new
    where v: "parseInt_string (param_product_id r) = Some pid"
      "parseInt (new_quantity r) = Some new" "0 \<le> new"
    by blast
  with None show ?thesis
    by (auto simp: put_inventory_def put_inventory_try_def store_defs Let_def balanced_def
        split: option.splits list.splits)
qed

text \<open>
  A sale appends at most one entry: it starts at the stock, ends at the stock less the
  quantity sold or at 0, and its change is the quantity sold, negated, in both cases.
\<close>

lemma sale_entry:
  "inventory_history (snd (post_sales invalid_date rejected d b)) = inventory_history d \<or>
   (\<exists>pid q. pg_integer (integer_forms d) (product_id b) = Some pid \<and> parseInt (quantity b) = Some q \<and> 0 < q \<and>
      inventory_history (snd (post_sales invalid_date rejected d b)) = inventory_history d @
        [\<lparr>h_product_id = pid, change_qty = - q, previous_qty = stock d pid,
          new_qty = max 0 (stock d pid - q)\<rparr>])"
proof (cases "sale_body_error invalid_date b")
  case (Some message)
  then show ?thesis by (simp add: post_sales_def)
next
  case None
  from sale_body_valid[OF None] obtain q where q: "parseInt (quantity b) = Some q" "0 < q"
    by blast
  with None show ?thesis
    by (auto simp: post_sales_def post_sales_try_def store_defs Let_def stock_def
        split: option.splits list.splits)
qed

text \<open>Set-inventory refuses a negative integer and does not find an unknown product.\<close>

lemma negative_new_quantity_refused:
  assumes "parseInt (new_quantity r) = Some n" and "n < 0"
  shows "\<exists>message. put_inventory rejected d r = (Sent 400 (Error message), d)"
  using assms
  by (simp add: put_inventory_def inventory_put_error_def isNaN_def js_less_def)

lemma unknown_product_not_found:
  assumes "inventory_put_error r = None"
    and "parseInt_string (param_product_id r) = Some pid"
    and "pid \<notin> set (map p_id (products d))"
    and "referential d"
    and "\<not> rejected 1" and "\<not> rejected 2"
  shows "put_inventory rejected d r = (Sent 404 (Error ''Product not found.''), d)"
proof -
  have "filter (\<lambda>r. i_product_id r = pid) (inventory d) = []"
    using assms(3,4) by (auto simp: referential_def list_all_iff filter_empty_conv)
  moreover have "filter (\<lambda>p. p_id p = pid) (products d) = []"
    using assms(3) by (auto simp: filter_empty_conv)
  ultimately show ?thesis
    using assms
    by (simp add: put_inventory_def put_inventory_try_def query_def select_inventory_def
        select_product_def)
qed

section \<open>A sale alone\<close>

text \<open>
  The six statements of a sale, run with no other request in between, are the \<^verbatim>\<open>try\<close>
  block of the handler.
\<close>

lemma sale_steps_alone:
  "sale_steps 6 rejected b Select_product d =
     (Finished (fst (post_sales_try rejected d b)), snd (post_sales_try rejected d b))"
  by (simp add: eval_nat_numeral post_sales_try_def Let_def
      split: prod.splits sum.splits list.splits)

section \<open>What the store refuses in a sale\<close>

text \<open>
  A \<^verbatim>\<open>quantity\<close> of which \<^verbatim>\<open>parseInt\<close> reads the leading digits passes the checks of the
  handler and goes to the store as it came: the store reads no integer in \<^verbatim>\<open>"5abc"\<close>.
\<close>

lemma sale_quantity_with_trailing_text:
  "sale_body_error no_date ((sale_of 1 5)\<lparr>quantity := JStr ''5abc''\<rparr>) = None \<and>
   post_sales no_date accepting unstocked ((sale_of 1 5)\<lparr>quantity := JStr ''5abc''\<rparr>) =
     (Sent 500 (Error ''Internal Server Error''), unstocked)"
  by (simp add: js_defs store_defs handler_defs example_defs)

text \<open>
  A total price of twelve digits before the point fits \<^verbatim>\<open>NUMERIC(14,2)\<close>, one of thirteen
  does not: at the price of 9999999999.99, 100 units are sold and 101 are not.
\<close>

lemma sale_total_within_numeric:
  "fst (post_sales no_date accepting (unstocked\<lparr>product_prices := [(1, 999999999999)]\<rparr>)
          (sale_of 1 100)) =
     Sent 201 (Sale_json \<lparr>s_id = 1, s_product_id = 1, s_quantity = 100\<rparr>)"
  by (simp add: js_defs store_defs handler_defs example_defs)

lemma sale_total_beyond_numeric:
  "fst (post_sales no_date accepting (unstocked\<lparr>product_prices := [(1, 999999999999)]\<rparr>)
          (sale_of 1 101)) =
     Sent 500 (Error ''Internal Server Error'')"
  by (simp add: js_defs store_defs handler_defs example_defs)

section \<open>An unknown category\<close>

text \<open>
  A body passes the four checks of \<^verbatim>\<open>POST /api/products\<close>, its description is absent,
  falsy or a string, and its \<^verbatim>\<open>category_id\<close> is the id of no category. Then the answer is
  500 with \<^verbatim>\<open>{error: "Internal Server Error"}\<close>, whatever else the store rejects, and no
  row is added to \<^verbatim>\<open>products\<close>, \<^verbatim>\<open>inventory\<close> or \<^verbatim>\<open>inventory_history\<close>.
\<close>

lemma unknown_category_answers_500:
  assumes "product_body_error parseFloat b = None"
    and "trim_description (description b) = Some descr"
    and "parseInt (category_id b) = Some cat"
    and "cat \<notin> set (categories d)"
  shows "fst (post_products parseFloat rejected d b) = Sent 500 (Error ''Internal Server Error'') \<and>
         products (snd (post_products parseFloat rejected d b)) = products d \<and>
         inventory (snd (post_products parseFloat rejected d b)) = inventory d \<and>
         inventory_history (snd (post_products parseFloat rejected d b)) = inventory_history d"
  using assms
  by (simp add: post_products_def post_products_try_def query_def insert_product_def Let_def
      internal_server_error_def)

text \<open>A product of category 7 in a store whose only category is 1.\<close>

lemma unknown_category_example:
  "post_products integral_price accepting (shop 3) (new_product 7 50) =
     (Sent 500 (Error ''Internal Server Error''), (shop 3)\<lparr>products_id_seq := 3\<rparr>)"
  by (simp add: js_defs store_defs handler_defs example_defs)

section \<open>The claims\<close>

subsection \<open>C1\<close>

text \<open>
  Claim C1, on the code. The product has 3 units and the sale asks for 5. The stock goes to
  0, and the entry written has \<^verbatim>\<open>previous_qty\<close> 3 and \<^verbatim>\<open>new_qty\<close> 0, but its \<^verbatim>\<open>change_qty\<close>
  is the 5 asked for, negated, and not the 3 taken.
\<close>

theorem sale_beyond_stock_records_requested_quantity:
  "post_sales no_date accepting (shop 3) (sale_of 1 5) =
     (Sent 201 (Sale_json \<lparr>s_id = 1, s_product_id = 1, s_quantity = 5\<rparr>),
      (shop 3)
        \<lparr>inventory := [\<lparr>i_product_id = 1, i_quantity = 0\<rparr>],
         inventory_history := inventory_history (shop 3) @
           [\<lparr>h_product_id = 1, change_qty = - 5, previous_qty = 3, new_qty = 0\<rparr>],
         sales := [\<lparr>s_id = 1, s_product_id = 1, s_quantity = 5\<rparr>],
         sales_id_seq := 2\<rparr>)"
  by (simp add: js_defs store_defs handler_defs example_defs)

subsection \<open>C2\<close>

text \<open>
  Claim C2, on the code. The product has 4 units and the sale asks for 10: the entry the
  sale writes goes from 4 to 0 with a change of \<open>- 10\<close>, so its \<^verbatim>\<open>new_qty\<close> is not
  \<^verbatim>\<open>previous_qty + change_qty\<close>.
\<close>

theorem sale_beyond_stock_entry_not_balanced:
  "last (inventory_history (snd (post_sales no_date accepting (shop 4) (sale_of 1 10)))) =
     \<lparr>h_product_id = 1, change_qty = - 10, previous_qty = 4, new_qty = 0\<rparr> \<and>
   \<not> balanced (last (inventory_history (snd (post_sales no_date accepting (shop 4) (sale_of 1 10)))))"
  by (simp add: js_defs store_defs handler_defs example_defs balanced_def)

subsection \<open>C3\<close>

text \<open>
  Claim C3, on the code. A second product is created with 2 units and then 3 are sold,
  one request after the other. Its stock is 0; its entries are \<open>+ 2\<close> and \<open>- 3\<close>, which
  sum to \<open>- 1\<close>.
\<close>

theorem stock_differs_from_ledger_sum:
  "stock (run integral_price no_date (shop 3)
            [Create_product (new_product 1 2), Record_sale (sale_of 2 3)]) 2 = 0 \<and>
   ledger_sum (run integral_price no_date (shop 3)
            [Create_product (new_product 1 2), Record_sale (sale_of 2 3)]) 2 = - 1"
  by (simp add: js_defs store_defs handler_defs example_defs stock_def ledger_sum_def history_of_def
      cents_def Let_def)

subsection \<open>C4\<close>

text \<open>
  Claim C4, as amended. A body passes the checks and names the category \<open>cat\<close> and the
  quantity \<open>initial\<close>; \<open>row\<close> is the product row it asks for. The three inserts are
  statements of their own. When the insert of the product fails (the store rejects it,
  the category is unknown or the id is taken), the answer is 500 and no row is persisted.
  When it succeeds and the insert into \<^verbatim>\<open>inventory\<close> is rejected, the answer is 500 and the
  product row stays, with no inventory row and no entry. When both succeed and the insert
  into \<^verbatim>\<open>inventory_history\<close> is rejected, the answer is 500 and the product row and the
  inventory row stay, with no entry.
\<close>

theorem product_creation_keeps_rows_before_failure:
  assumes "product_body_error parseFloat b = None"
    and "trim_description (description b) = Some descr"
    and "parseInt (category_id b) = Some cat"
    and "parseInt (initial_quantity b) = Some initial"
    and "row = \<lparr>p_id = products_id_seq d, p_name = trim (string_of (name b)),
                 p_description = descr, p_category_id = Some cat\<rparr>"
    and "result = post_products parseFloat rejected d b"
  shows
    "(rejected 1 \<or> cat \<notin> set (categories d) \<or> p_id row \<in> set (map p_id (products d)) \<longrightarrow>
        fst result = internal_server_error \<and> persisted (snd result) = persisted d) \<and>
     (\<not> rejected 1 \<and> cat \<in> set (categories d) \<and> p_id row \<notin> set (map p_id (products d)) \<and>
      rejected 2 \<longrightarrow>
        fst result = internal_server_error \<and>
        persisted (snd result) = (products d @ [row], inventory d, inventory_history d)) \<and>
     (\<not> rejected 1 \<and> cat \<in> set (categories d) \<and> p_id row \<notin> set (map p_id (products d)) \<and>
      \<not> rejected 2 \<and> rejected 3 \<longrightarrow>
        fst result = internal_server_error \<and>
        persisted (snd result) =
          (products d @ [row],
           inventory d @ [\<lparr>i_product_id = p_id row, i_quantity = initial\<rparr>],
           inventory_history d))"
proof -
  from product_body_valid[OF assms(1)] assms(4) have "0 \<le> initial" by auto
  then show ?thesis
    using assms
    by (simp add: post_products_def post_products_try_def query_def insert_product_def
        insert_inventory_def Let_def persisted_def)
qed

text \<open>
  A product of 50 units whose insert into \<^verbatim>\<open>inventory_history\<close> the store rejects: the
  product row and the inventory row stay.
\<close>

theorem product_creation_keeps_rows_before_failure_witness:
  "product_body_error integral_price (new_product 1 50) = None \<and>
   trim_description (description (new_product 1 50)) = Some [] \<and>
   parseInt (category_id (new_product 1 50)) = Some 1 \<and>
   parseInt (initial_quantity (new_product 1 50)) = Some 50 \<and>
   \<not> rejecting 3 1 \<and> \<not> rejecting 3 2 \<and> rejecting 3 3 \<and>
   1 \<in> set (categories (shop 3)) \<and>
   products_id_seq (shop 3) \<notin> set (map p_id (products (shop 3))) \<and>
   fst (post_products integral_price (rejecting 3) (shop 3) (new_product 1 50)) =
     internal_server_error \<and>
   persisted (snd (post_products integral_price (rejecting 3) (shop 3) (new_product 1 50))) =
     (products (shop 3) @
        [\<lparr>p_id = 2, p_name = ''Garden Tool X'', p_description = [], p_category_id = Some 1\<rparr>],
      inventory (shop 3) @ [\<lparr>i_product_id = 2, i_quantity = 50\<rparr>],
      inventory_history (shop 3))"
proof -
  have h: "product_body_error integral_price (new_product 1 50) = None"
    "trim_description (description (new_product 1 50)) = Some []"
    "parseInt (category_id (new_product 1 50)) = Some 1"
    "parseInt (initial_quantity (new_product 1 50)) = Some 50"
    by (simp_all add: product_body_error_def trim_description_def js_defs example_defs)
  have r: "\<not> rejecting 3 1" "\<not> rejecting 3 2" "rejecting 3 3"
    by (simp_all add: rejecting_def)
  have s: "1 \<in> set (categories (shop 3))"
    "products_id_seq (shop 3) \<notin> set (map p_id (products (shop 3)))"
    "products_id_seq (shop 3) = 2"
    "trim (string_of (name (new_product 1 50))) = ''Garden Tool X''"
    by (simp_all add: shop_def new_product_def js_defs)
  from h r s
    product_creation_keeps_rows_before_failure
      [where d = "shop 3" and rejected = "rejecting 3", OF h refl refl]
  show ?thesis by simp
qed

text \<open>
  Claim C4 as stated fails when the store rejects the second statement, the insert into
  \<^verbatim>\<open>inventory\<close>: the answer is 500, and the product row is persisted all the same, with no
  inventory row and no entry.
\<close>

theorem product_row_survives_failed_inventory_insert:
  "fst (post_products integral_price (rejecting 2) (shop 3) (new_product 1 50)) =
     Sent 500 (Error ''Internal Server Error'') \<and>
   products (snd (post_products integral_price (rejecting 2) (shop 3) (new_product 1 50))) =
     products (shop 3) @
       [\<lparr>p_id = 2, p_name = ''Garden Tool X'', p_description = [], p_category_id = Some 1\<rparr>] \<and>
   inventory (snd (post_products integral_price (rejecting 2) (shop 3) (new_product 1 50))) =
     inventory (shop 3) \<and>
   inventory_history (snd (post_products integral_price (rejecting 2) (shop 3) (new_product 1 50))) =
     inventory_history (shop 3)"
  by (simp add: js_defs store_defs handler_defs example_defs Let_def)

subsection \<open>C5\<close>

text \<open>
  Claim C5, on the code. The product has 2 units; two sales of 1 unit are in flight and
  take turns, statement by statement. Both read 2 and both write 1: both are answered
  with 201, the stock ends at 1, and the two entries both go from 2 to 1, so the history is
  no chain.
\<close>

theorem concurrent_sales_lose_an_update:
  "map snd (fst (interleave in_turn two_sales (shop 2))) =
     [Finished (Sent 201 (Sale_json \<lparr>s_id = 1, s_product_id = 1, s_quantity = 1\<rparr>)),
      Finished (Sent 201 (Sale_json \<lparr>s_id = 2, s_product_id = 1, s_quantity = 1\<rparr>))] \<and>
   stock (snd (interleave in_turn two_sales (shop 2))) 1 = 1 \<and>
   history_of (snd (interleave in_turn two_sales (shop 2))) 1 =
     [\<lparr>h_product_id = 1, change_qty = 2, previous_qty = 0, new_qty = 2\<rparr>,
      \<lparr>h_product_id = 1, change_qty = - 1, previous_qty = 2, new_qty = 1\<rparr>,
      \<lparr>h_product_id = 1, change_qty = - 1, previous_qty = 2, new_qty = 1\<rparr>] \<and>
   \<not> chained (history_of (snd (interleave in_turn two_sales (shop 2))) 1)"
  by (simp add: js_defs store_defs handler_defs example_defs stock_def history_of_def)

subsection \<open>C6\<close>

text \<open>
  Claim C6, as amended. The ledger is in order at the start: the foreign keys hold and
  every history is a chain that ends at the product's stock. Requests (product creations,
  sales and set-inventory calls, with any bodies) are served one after the other. The
  store may reject any of their statements, but every request ran to its entry: none left
  \<^verbatim>\<open>inventory\<close> changed without adding to \<^verbatim>\<open>inventory_history\<close>. Then the history of every
  product, oldest entry first, is a chain: each entry's \<^verbatim>\<open>new_qty\<close> is the next entry's
  \<^verbatim>\<open>previous_qty\<close>.
\<close>

theorem history_is_a_chain:
  assumes "ledger_chained d"
    and "entries_follow parseFloat invalid_date d attempts"
  shows "chained (history_of (run_attempts parseFloat invalid_date d attempts) p)"
  using run_attempts_ledger[OF assms] by (simp add: ledger_chained_iff)

text \<open>
  The scenario of a product created with 50 units: a sale of 10, a manual set to 5 whose
  \<^verbatim>\<open>UPDATE\<close> the store rejects, and the same call again.
\<close>

theorem history_is_a_chain_witness:
  "ledger_chained (shop 50) \<and>
   entries_follow integral_price no_date (shop 50)
     [(Record_sale (sale_of 1 10), accepting),
      (Set_inventory (set_to ''1'' (JNum 5)), rejecting 2),
      (Set_inventory (set_to ''1'' (JNum 5)), accepting)] \<and>
   chained (history_of
     (run_attempts integral_price no_date (shop 50)
        [(Record_sale (sale_of 1 10), accepting),
         (Set_inventory (set_to ''1'' (JNum 5)), rejecting 2),
         (Set_inventory (set_to ''1'' (JNum 5)), accepting)]) 1) \<and>
   history_of
     (run_attempts integral_price no_date (shop 50)
        [(Record_sale (sale_of 1 10), accepting),
         (Set_inventory (set_to ''1'' (JNum 5)), rejecting 2),
         (Set_inventory (set_to ''1'' (JNum 5)), accepting)]) 1 =
     [\<lparr>h_product_id = 1, change_qty = 50, previous_qty = 0, new_qty = 50\<rparr>,
      \<lparr>h_product_id = 1, change_qty = - 10, previous_qty = 50, new_qty = 40\<rparr>,
      \<lparr>h_product_id = 1, change_qty = - 35, previous_qty = 40, new_qty = 5\<rparr>]"
proof -
  have h: "ledger_chained (shop 50)"
    by (simp add: ledger_chained_def referential_def history_of_def stock_def shop_def)
  have e: "entries_follow integral_price no_date (shop 50)
     [(Record_sale (sale_of 1 10), accepting),
      (Set_inventory (set_to ''1'' (JNum 5)), rejecting 2),
      (Set_inventory (set_to ''1'' (JNum 5)), accepting)]"
    by (simp add: entry_follows_def attempt_def js_defs store_defs handler_defs example_defs)
  have "history_of
     (run_attempts integral_price no_date (shop 50)
        [(Record_sale (sale_of 1 10), accepting),
         (Set_inventory (set_to ''1'' (JNum 5)), rejecting 2),
         (Set_inventory (set_to ''1'' (JNum 5)), accepting)]) 1 =
     [\<lparr>h_product_id = 1, change_qty = 50, previous_qty = 0, new_qty = 50\<rparr>,
      \<lparr>h_product_id = 1, change_qty = - 10, previous_qty = 50, new_qty = 40\<rparr>,
      \<lparr>h_product_id = 1, change_qty = - 35, previous_qty = 40, new_qty = 5\<rparr>]"
    by (simp add: attempt_def js_defs store_defs handler_defs example_defs history_of_def)
  with h e history_is_a_chain[OF h e, of 1]
  show ?thesis by simp
qed

text \<open>
  Claim C6 as stated fails when a request stops between its two writes. The product has 5
  units. A sale of 2 sets the stock to 3, the store rejects its insert into
  \<^verbatim>\<open>inventory_history\<close>, and the answer is 500; no transaction takes the update back. The
  next sale, of 1 unit, is answered with 201 and appends an entry that starts at 3, after
  an entry that ends at 5.
\<close>

theorem sale_after_lost_entry_breaks_the_chain:
  "ledger_chained (shop 5) \<and>
   fst (attempt integral_price no_date (shop 5) (Record_sale (sale_of 1 2), rejecting 5)) =
     Sent 500 (Error ''Internal Server Error'') \<and>
   stock (snd (attempt integral_price no_date (shop 5)
     (Record_sale (sale_of 1 2), rejecting 5))) 1 = 3 \<and>
   history_of
     (run_attempts integral_price no_date (shop 5)
        [(Record_sale (sale_of 1 2), rejecting 5), (Record_sale (sale_of 1 1), accepting)]) 1 =
     [\<lparr>h_product_id = 1, change_qty = 5, previous_qty = 0, new_qty = 5\<rparr>,
      \<lparr>h_product_id = 1, change_qty = - 1, previous_qty = 3, new_qty = 2\<rparr>] \<and>
   \<not> chained (history_of
     (run_attempts integral_price no_date (shop 5)
        [(Record_sale (sale_of 1 2), rejecting 5), (Record_sale (sale_of 1 1), accepting)]) 1)"
  by (simp add: ledger_chained_def referential_def attempt_def js_defs store_defs handler_defs
      example_defs stock_def history_of_def)

subsection \<open>C7\<close>

text \<open>
  Claim C7, as amended. A set-inventory call is answered with 200, and its path and body
  read as the product \<open>productId\<close> and the quantity \<open>newQty\<close>. When the product had a row in
  \<^verbatim>\<open>inventory\<close>, the body is \<^verbatim>\<open>{product_id, previous_quantity, new_quantity}\<close> with the stock
  before the update as \<^verbatim>\<open>previous_quantity\<close>; when it had none, the body is
  \<^verbatim>\<open>{product_id, quantity}\<close> with the new quantity.
\<close>

theorem set_inventory_response:
  assumes "fst (put_inventory rejected d r) = Sent 200 answer"
    and "parseInt_string (param_product_id r) = Some productId"
    and "parseInt (new_quantity r) = Some newQty"
  shows "answer =
           (if filter (\<lambda>i. i_product_id i = productId) (inventory d) = []
            then Inventory_created productId newQty
            else Inventory_updated productId (stock d productId) newQty)"
  using assms
  by (auto simp: put_inventory_def put_inventory_try_def store_defs internal_server_error_def
      stock_def Let_def split: option.splits list.splits if_splits)

text \<open>A product with 40 units is set to 5.\<close>

theorem set_inventory_response_witness:
  "fst (put_inventory accepting (shop 40) (set_to ''1'' (JNum 5))) =
     Sent 200 (Inventory_updated 1 40 5) \<and>
   parseInt_string (param_product_id (set_to ''1'' (JNum 5))) = Some 1 \<and>
   parseInt (new_quantity (set_to ''1'' (JNum 5))) = Some 5 \<and>
   filter (\<lambda>i. i_product_id i = 1) (inventory (shop 40)) \<noteq> [] \<and>
   stock (shop 40) 1 = 40"
proof -
  have h: "fst (put_inventory accepting (shop 40) (set_to ''1'' (JNum 5))) =
      Sent 200 (Inventory_updated 1 40 5)"
    "parseInt_string (param_product_id (set_to ''1'' (JNum 5))) = Some 1"
    "parseInt (new_quantity (set_to ''1'' (JNum 5))) = Some 5"
    by (simp_all add: js_defs store_defs handler_defs example_defs)
  have "filter (\<lambda>i. i_product_id i = 1) (inventory (shop 40)) \<noteq> []"
    by (simp add: shop_def)
  with h set_inventory_response[OF h] show ?thesis
    by simp
qed

text \<open>
  Claim C7 as stated fails on a product without an inventory row: the first
  set-inventory call, to 7 units, is answered with \<^verbatim>\<open>{product_id: 1, quantity: 7}\<close> and not
  with \<^verbatim>\<open>{product_id: 1, previous_quantity: 0, new_quantity: 7}\<close>.
\<close>

theorem first_set_inventory_answers_quantity:
  "fst (put_inventory accepting unstocked (set_to ''1'' (JNum 7))) =
     Sent 200 (Inventory_created 1 7) \<and>
   fst (put_inventory accepting unstocked (set_to ''1'' (JNum 7))) \<noteq>
     Sent 200 (Inventory_updated 1 0 7)"
  by (simp add: js_defs store_defs handler_defs example_defs)

subsection \<open>C8\<close>

text \<open>
  Claim C8, on the code. \<^verbatim>\<open>PUT /api/inventory/1\<close> with \<^verbatim>\<open>{"new_quantity": "3.7"}\<close> on a
  product with 10 units: \<^verbatim>\<open>parseInt\<close> reads 3, the answer is 200 and the stock is set to 3.
\<close>

theorem fractional_new_quantity_accepted:
  "put_inventory accepting (shop 10) (set_to ''1'' (JStr ''3.7'')) =
     (Sent 200 (Inventory_updated 1 10 3),
      (shop 10)
        \<lparr>inventory := [\<lparr>i_product_id = 1, i_quantity = 3\<rparr>],
         inventory_history := inventory_history (shop 10) @
           [\<lparr>h_product_id = 1, change_qty = - 7, previous_qty = 10, new_qty = 3\<rparr>]\<rparr>)"
  by (simp add: js_defs store_defs handler_defs example_defs)

subsection \<open>C9\<close>




subsection \<open>C10\<close>

text \<open>
  Claim C10, on the code. The body
  \<^verbatim>\<open>{name: "Garden Tool X", description: 123, price: 25, category_id: 7, initial_quantity: 50}\<close>
  passes the four checks, and 7 is the id of no category. \<^verbatim>\<open>description.trim()\<close> throws on
  the number, two lines before the \<^verbatim>\<open>try\<close> block: no statement is sent to the store and
  the handler answers neither 500 nor anything else.
\<close>

theorem description_without_trim_is_not_answered:
  "product_body_error integral_price ((new_product 7 50)\<lparr>description := JNum 123\<rparr>) = None \<and>
   7 \<notin> set (categories (shop 3)) \<and>
   post_products integral_price accepting (shop 3)
     ((new_product 7 50)\<lparr>description := JNum 123\<rparr>) = (Uncaught, shop 3) \<and>
   fst (post_products integral_price accepting (shop 3)
     ((new_product 7 50)\<lparr>description := JNum 123\<rparr>)) \<noteq>
     Sent 500 (Error ''Internal Server Error'')"
  by (simp add: js_defs store_defs handler_defs example_defs)

end
